theory Spec2Isabelle
  imports Main "HOL-Library.Char_ord" "HOL-Library.List_Lexorder" "HOL-Library.AList"
begin

section \<open>Data model of \<open>src/main.py\<close>\<close>

text \<open>
  A screenshot file is represented by what the program observes of it: the result of
  \<open>_calculate_phash\<close> on the decoded image (\<open>None\<close> when \<open>Image.open\<close> or the
  computation raises, which \<open>capture_screenshot\<close> catches at lines 261-265), the hex digest
  that \<open>_calculate_image_hash\<close> returns for the file, and whether \<open>_create_pdf\<close> can open
  and draw it. The field \<open>pixels\<close> stands for the remaining content of the file.
\<close>

record png =
  pixels :: nat
  phash :: "string option"
  md5 :: string
  renders :: bool

text \<open>
  The fields of \<open>AppManager\<close> that the capture loop reads and writes. The directory
  \<open>screenshots_dir\<close> is a list of (file name, file) pairs; \<open>ebook_pdf\<close> is the file
  \<open>ebook.pdf\<close>: the pages of the document, each one the list of images drawn on it.
\<close>

record app_manager =
  screenshots_dir :: "(string \<times> png) list"
  last_image_hash :: "string option"
  reached_duplicate :: bool
  ebook_pdf :: "string list list option"

text \<open>Python's truth value of an \<open>Optional[str]\<close>: \<open>None\<close> and the empty string are false.\<close>

fun truthy :: "string option \<Rightarrow> bool" where
  "truthy None = False"
| "truthy (Some s) = (s \<noteq> [])"

subsection \<open>\<open>_phash_distance\<close> (lines 431-434)\<close>

definition phash_distance :: "string option \<Rightarrow> string option \<Rightarrow> int" where
  "phash_distance a b =
     (if \<not> truthy a \<or> \<not> truthy b \<or> length (the a) \<noteq> length (the b) then 0
      else sum_list (map (\<lambda>(ch1, ch2). if ch1 \<noteq> ch2 then 1 else 0) (zip (the a) (the b))))"

text \<open>
  The glossary's Hamming distance, in the words of the specification: the count of
  differing bit positions between two equal-length bit-sequences.
\<close>

definition hamming_distance :: "string \<Rightarrow> string \<Rightarrow> nat" where
  "hamming_distance a b = length (filter (\<lambda>i. a ! i \<noteq> b ! i) [0..<length a])"

subsection \<open>File names (lines 232-234)\<close>

fun digits :: "nat \<Rightarrow> string" where
  "digits n =
     (if n < 10 then [''0123456789'' ! n]
      else digits (n div 10) @ [''0123456789'' ! (n mod 10)])"

declare digits.simps [simp del]

definition str_int :: "int \<Rightarrow> string" where
  "str_int i = (if i < 0 then CHR ''-'' # digits (nat (- i)) else digits (nat i))"

definition tmp_path :: "int \<Rightarrow> string" where
  "tmp_path timestamp = ''screenshot_'' @ str_int timestamp @ ''_tmp.png''"

definition final_path :: "int \<Rightarrow> string" where
  "final_path timestamp = ''screenshot_'' @ str_int timestamp @ ''.png''"

subsection \<open>\<open>capture_screenshot\<close> (lines 164-293)\<close>

text \<open>
  What the window server and the file system answer during one call. The first four are the
  early \<open>return None\<close> of lines 174-217; \<open>ImageNone\<close> is line 226; \<open>WriteFailed\<close> is one of
  the three \<open>raise\<close> of lines 250-258, caught at line 290; \<open>Written t img\<close> is a call that
  reads the clock as \<open>t\<close> (whole seconds) and writes the image \<open>img\<close> to the temporary file.
  The calls \<open>rename\<close>, \<open>unlink\<close> and the read of \<open>_calculate_image_hash\<close> are taken to succeed.
\<close>

datatype capture_env =
    NoTargetPid
  | NoWindowList
  | NoVisibleWindow
  | NoWindowId
  | ImageNone
  | WriteFailed
  | Written int png

text \<open>The test of lines 271-274, with the threshold 3 of line 274.\<close>

definition is_duplicate :: "string option \<Rightarrow> string option \<Rightarrow> bool" where
  "is_duplicate last_hash current_phash =
     (truthy last_hash \<and> truthy current_phash \<and> phash_distance current_phash last_hash \<le> 3)"

fun capture_screenshot :: "capture_env \<Rightarrow> app_manager \<Rightarrow> app_manager \<times> string option" where
  "capture_screenshot NoTargetPid m = (m, None)"
| "capture_screenshot NoWindowList m = (m, None)"
| "capture_screenshot NoVisibleWindow m = (m, None)"
| "capture_screenshot NoWindowId m = (m, None)"
| "capture_screenshot ImageNone m = (m\<lparr>reached_duplicate := False\<rparr>, None)"
| "capture_screenshot WriteFailed m = (m\<lparr>reached_duplicate := False\<rparr>, None)"
| "capture_screenshot (Written timestamp img) m =
     (let written = AList.update (tmp_path timestamp) img (screenshots_dir m);
          current_phash = phash img
      in if is_duplicate (last_image_hash m) current_phash
         then (m\<lparr>screenshots_dir := AList.delete (tmp_path timestamp) written,
                  reached_duplicate := True\<rparr>, None)
         else (m\<lparr>screenshots_dir :=
                    AList.update (final_path timestamp) img
                      (AList.delete (tmp_path timestamp) written),
                  last_image_hash :=
                    (if truthy current_phash then current_phash else Some (md5 img)),
                  reached_duplicate := False\<rparr>,
               Some (final_path timestamp)))"

text \<open>
  The page recorded in the directory for the capture second \<open>t\<close>: the content of
  \<open>screenshot_<t>.png\<close>, if there is such a file.
\<close>

definition page_store :: "app_manager \<Rightarrow> int \<Rightarrow> png option" where
  "page_store m timestamp = map_of (screenshots_dir m) (final_path timestamp)"

subsection \<open>\<open>_clear_screenshots_folder\<close> (lines 436-447) and \<open>__init__\<close> (lines 39-58)\<close>

definition clear_screenshots_folder :: "(string \<times> png) list \<Rightarrow> (string \<times> png) list" where
  "clear_screenshots_folder dir = fold (\<lambda>file_path. AList.delete (fst file_path)) dir dir"

text \<open>The manager built over the directory and the \<open>ebook.pdf\<close> found at start-up.\<close>

definition new_app_manager ::
  "(string \<times> png) list \<Rightarrow> string list list option \<Rightarrow> app_manager" where
  "new_app_manager dir pdf =
     \<lparr>screenshots_dir = clear_screenshots_folder dir, last_image_hash = None,
      reached_duplicate = False, ebook_pdf = pdf\<rparr>"

subsection \<open>\<open>send_right_arrow\<close> (lines 142-162)\<close>

text \<open>
  The key is delivered by \<open>osascript\<close>; when that raises \<open>CalledProcessError\<close> the Quartz
  event is posted instead; when that raises too, the result is \<open>False\<close>.
\<close>

datatype arrow_env = PrimaryDelivered | FallbackDelivered | BothRejected

fun send_right_arrow :: "arrow_env \<Rightarrow> bool" where
  "send_right_arrow PrimaryDelivered = True"
| "send_right_arrow FallbackDelivered = True"
| "send_right_arrow BothRejected = False"

subsection \<open>\<open>_create_pdf\<close> (lines 449-554)\<close>

text \<open>
  The part of reportlab's canvas that \<open>_create_pdf\<close> uses: \<open>drawImage\<close> adds to the page
  being drawn, \<open>showPage\<close> closes it, and \<open>save\<close> closes a page that has content before it
  writes the document. Page sizes and the resizing of the images (floating point) and the
  file \<open>temp_<i>.png\<close>, written and removed inside the loop, are left out.
\<close>

record canvas =
  pages :: "string list list"
  code :: "string list"

definition drawImage :: "string \<Rightarrow> canvas \<Rightarrow> canvas" where
  "drawImage image_path c = c\<lparr>code := code c @ [image_path]\<rparr>"

definition showPage :: "canvas \<Rightarrow> canvas" where
  "showPage c = c\<lparr>pages := pages c @ [code c], code := []\<rparr>"

definition save :: "canvas \<Rightarrow> string list list" where
  "save c = pages (if code c \<noteq> [] then showPage c else c)"

text \<open>The pattern \<open>*.png\<close> of line 452.\<close>

definition is_png :: "string \<Rightarrow> bool" where
  "is_png name = (drop (length name - 4) name = ''.png'')"

text \<open>
  The loop of lines 509-540 over \<open>enumerate(image_files)\<close>, with \<open>n = len(image_files)\<close>;
  an image that cannot be opened raises, and the handler of line 553 abandons the document.
\<close>

fun add_pages ::
  "(string \<times> png) list \<Rightarrow> int \<Rightarrow> int \<Rightarrow> string list \<Rightarrow> canvas \<Rightarrow> canvas option" where
  "add_pages dir n i [] c = Some c"
| "add_pages dir n i (image_file # rest) c =
     (case map_of dir image_file of
        None \<Rightarrow> None
      | Some original_img \<Rightarrow>
          if \<not> renders original_img then None
          else let c1 = drawImage image_file c;
                   c2 = (if i < n - 1 then showPage c1 else c1)
               in add_pages dir n (i + 1) rest c2)"

definition create_pdf :: "app_manager \<Rightarrow> app_manager" where
  "create_pdf m =
     (let dir = screenshots_dir m;
          found = sort (filter is_png (map fst dir))
      in case (if length found > 1 then butlast found else found) of
           [] \<Rightarrow> m
         | first_image # others \<Rightarrow>
             (case map_of dir first_image of
                None \<Rightarrow> m
              | Some sample_img \<Rightarrow>
                  if \<not> renders sample_img then m
                  else (case add_pages dir (1 + int (length others)) 0 (first_image # others)
                               \<lparr>pages = [], code = []\<rparr> of
                          None \<Rightarrow> m
                        | Some c \<Rightarrow> m\<lparr>ebook_pdf := Some (save c)\<rparr>)))"

subsection \<open>The capture loop of \<open>main\<close> (lines 671-723)\<close>

datatype delay = PostFocusDelay | PageLoadDelay | RetryInterval | PostKeyDelay

text \<open>The calls of the loop that act on the outside world, in the order they are made.\<close>

datatype effect = Sleep delay | CaptureScreenshot | SendRightArrow | CreatePdf

record loop_state =
  mgr :: app_manager
  duplicate_count :: int
  effects :: "effect list"

text \<open>
  What the outside world answers during one iteration: the bundle id
  \<open>_get_frontmost_app\<close> returns, the capture, and the delivery of the key (read only when
  the iteration gets that far).
\<close>

record iter_env =
  frontmost :: "string option"
  window :: capture_env
  key_delivery :: arrow_env

datatype stop_reason = FocusChanged | MaxDuplicatesReached | ArrowKeyFailed

datatype step_result = Continue | Break stop_reason

definition max_duplicates :: int where
  "max_duplicates = 10"

text \<open>Lines 672-674: the state in which the loop is entered.\<close>

definition start_loop :: "app_manager \<Rightarrow> loop_state" where
  "start_loop m = \<lparr>mgr = m, duplicate_count = 0, effects = [Sleep PostFocusDelay]\<rparr>"

text \<open>Each \<open>break\<close> of the loop follows a call of \<open>_create_pdf\<close>.\<close>

definition finish :: "stop_reason \<Rightarrow> loop_state \<Rightarrow> step_result \<times> loop_state" where
  "finish r s = (Break r, s\<lparr>mgr := create_pdf (mgr s), effects := effects s @ [CreatePdf]\<rparr>)"

text \<open>Lines 712-723.\<close>

definition advance :: "arrow_env \<Rightarrow> loop_state \<Rightarrow> step_result \<times> loop_state" where
  "advance a s =
     (let s1 = s\<lparr>effects := effects s @ [SendRightArrow]\<rparr>
      in if \<not> send_right_arrow a then finish ArrowKeyFailed s1
         else (Continue, s1\<lparr>effects := effects s1 @ [Sleep PostKeyDelay]\<rparr>))"

text \<open>Line 679.\<close>

definition focus_changed :: "string \<Rightarrow> iter_env \<Rightarrow> bool" where
  "focus_changed target_bundle_id e =
     (truthy (frontmost e) \<and> frontmost e \<noteq> Some target_bundle_id)"

definition loop_body :: "string \<Rightarrow> iter_env \<Rightarrow> loop_state \<Rightarrow> step_result \<times> loop_state" where
  "loop_body target_bundle_id e s =
     (if focus_changed target_bundle_id e then finish FocusChanged s
      else
        let s1 = s\<lparr>effects := effects s @ [Sleep PageLoadDelay, CaptureScreenshot]\<rparr>;
            (m', shot) = capture_screenshot (window e) (mgr s1);
            s2 = s1\<lparr>mgr := m'\<rparr>
        in if reached_duplicate m' then
             let s3 = s2\<lparr>duplicate_count := duplicate_count s2 + 1\<rparr>
             in if duplicate_count s3 \<ge> max_duplicates then finish MaxDuplicatesReached s3
                else advance (key_delivery e) s3
           else if shot = None then
             (Continue, s2\<lparr>effects := effects s2 @ [Sleep RetryInterval]\<rparr>)
           else advance (key_delivery e) (s2\<lparr>duplicate_count := 0\<rparr>))"

text \<open>
  The loop over the answers of the outside world, one per iteration. It stops at a
  \<open>break\<close>, with the answers it did not read; when the answers run out before a \<open>break\<close>
  the loop is still running, in the state given.
\<close>

datatype outcome = Stopped stop_reason loop_state "iter_env list" | Running loop_state

fun capture_loop :: "string \<Rightarrow> iter_env list \<Rightarrow> loop_state \<Rightarrow> outcome" where
  "capture_loop target_bundle_id [] s = Running s"
| "capture_loop target_bundle_id (e # es) s =
     (case loop_body target_bundle_id e s of
        (Break r, s') \<Rightarrow> Stopped r s' es
      | (Continue, s') \<Rightarrow> capture_loop target_bundle_id es s')"

text \<open>
  The terminal states of the specification's controller (section 4.3): the loop completes
  when the focus moved away or the duplicates reached the maximum, and aborts when the key
  could not be delivered.
\<close>

datatype terminal = Completed | Aborted

fun terminal_state :: "stop_reason \<Rightarrow> terminal" where
  "terminal_state FocusChanged = Completed"
| "terminal_state MaxDuplicatesReached = Completed"
| "terminal_state ArrowKeyFailed = Aborted"

subsection \<open>Sequences of captures\<close>




section \<open>The distance function\<close>

lemma sum_neq_zip_commute:
  "length xs = length ys \<Longrightarrow>
   sum_list (map (\<lambda>(ch1, ch2). if ch1 \<noteq> ch2 then 1 else 0) (zip xs ys)) =
   (sum_list (map (\<lambda>(ch1, ch2). if ch1 \<noteq> ch2 then 1 else 0) (zip ys xs)) :: int)"
  by (induction xs ys rule: list_induct2) auto

lemma sum_neq_zip_same:
  "(sum_list (map (\<lambda>(ch1, ch2). if ch1 \<noteq> ch2 then 1 else 0) (zip xs xs)) :: int) = 0"
  by (induction xs) auto

lemma hamming_distance_Cons:
  "hamming_distance (x # xs) (y # ys) = (if x \<noteq> y then 1 else 0) + hamming_distance xs ys"
proof -
  have "[0..<length (x # xs)] = 0 # map Suc [0..<length xs]"
    by (simp add: upt_conv_Cons map_Suc_upt del: upt_Suc)
  then show ?thesis
    by (simp add: hamming_distance_def filter_map o_def del: upt_Suc)
qed

lemma sum_neq_zip_hamming:
  "length xs = length ys \<Longrightarrow>
   sum_list (map (\<lambda>(ch1, ch2). if ch1 \<noteq> ch2 then 1 else 0) (zip xs ys)) =
   int (hamming_distance xs ys)"
proof (induction xs ys rule: list_induct2)
  case Nil
  show ?case by (simp add: hamming_distance_def)
next
  case (Cons x xs y ys)
  from Cons.IH show ?case
    by (simp add: hamming_distance_Cons)
qed

lemma phash_distance_present:
  "a \<noteq> [] \<Longrightarrow> length a = length b \<Longrightarrow>
   phash_distance (Some a) (Some b) = int (hamming_distance a b)"
  by (auto simp: phash_distance_def sum_neq_zip_hamming)

text \<open>
  C9. The distance is symmetric, and the distance of a fingerprint to itself is 0; this
  holds for every pair of arguments \<open>_phash_distance\<close> accepts, absent ones included.
\<close>

theorem phash_distance_symmetric_reflexive:
  "phash_distance a b = phash_distance b a \<and> phash_distance a a = 0"
proof
  show "phash_distance a b = phash_distance b a"
    by (auto simp: phash_distance_def sum_neq_zip_commute)
  show "phash_distance a a = 0"
    by (simp add: phash_distance_def sum_neq_zip_same)
qed

theorem phash_distance_symmetric_reflexive_witness:
  "phash_distance (Some ''0000000000000000000000000000000000000000000000000000000000000011'')
     (Some ''0000000000000000000000000000000000000000000000000000000000000000'') = 2 \<and>
   phash_distance (Some ''0000000000000000000000000000000000000000000000000000000000000000'')
     (Some ''0000000000000000000000000000000000000000000000000000000000000000'') = 0"
proof -
  let ?a = "Some ''0000000000000000000000000000000000000000000000000000000000000000''"
  let ?b = "Some ''0000000000000000000000000000000000000000000000000000000000000011''"
  have d: "phash_distance ?a ?b = 2"
    by (simp add: phash_distance_def)
  from phash_distance_symmetric_reflexive [of ?a ?b]
  have "phash_distance ?a ?b = phash_distance ?b ?a" and "phash_distance ?a ?a = 0"
    by blast+
  with d show ?thesis
    by simp
qed

section \<open>Classification and persistence in \<open>capture_screenshot\<close>\<close>

lemma is_duplicate_present:
  "a \<noteq> [] \<Longrightarrow> length a = length b \<Longrightarrow>
   is_duplicate (Some b) (Some a) \<longleftrightarrow> hamming_distance a b \<le> 3"
  by (auto simp: is_duplicate_def phash_distance_present)

lemma capture_duplicate:
  "is_duplicate (last_image_hash m) (phash img) \<Longrightarrow>
   capture_screenshot (Written t img) m =
     (m\<lparr>screenshots_dir := AList.delete (tmp_path t) (screenshots_dir m),
        reached_duplicate := True\<rparr>, None)"
  by (simp add: delete_update_same)

lemma capture_new:
  "\<not> is_duplicate (last_image_hash m) (phash img) \<Longrightarrow>
   capture_screenshot (Written t img) m =
     (m\<lparr>screenshots_dir :=
          AList.update (final_path t) img (AList.delete (tmp_path t) (screenshots_dir m)),
        last_image_hash := (if truthy (phash img) then phash img else Some (md5 img)),
        reached_duplicate := False\<rparr>, Some (final_path t))"
  by (simp add: delete_update_same)

text \<open>
  C1. With a 64-character fingerprint of the frame and a 64-character baseline, the frame is
  classified as a duplicate exactly when the Hamming distance is at most 3. A duplicate
  leaves no file behind and returns no path; a new frame is stored under its final name
  and the path is returned.
\<close>

theorem duplicate_iff_within_threshold:
  assumes "length candidate = 64" and "length baseline = 64"
    and "phash img = Some candidate" and "last_image_hash m = Some baseline"
  shows "(is_duplicate (last_image_hash m) (phash img) \<longleftrightarrow>
            hamming_distance candidate baseline \<le> 3) \<and>
         (case capture_screenshot (Written t img) m of (m', shot) \<Rightarrow>
            if hamming_distance candidate baseline \<le> 3
            then shot = None \<and> reached_duplicate m' \<and>
                 map_of (screenshots_dir m') = (map_of (screenshots_dir m))(tmp_path t := None)
            else shot = Some (final_path t) \<and> \<not> reached_duplicate m' \<and>
                 map_of (screenshots_dir m') =
                   (map_of (screenshots_dir m))(tmp_path t := None, final_path t \<mapsto> img))"
proof -
  have ne: "candidate \<noteq> []" using assms(1) by auto
  have len: "length candidate = length baseline" using assms(1,2) by simp
  have iff: "is_duplicate (last_image_hash m) (phash img) \<longleftrightarrow>
             hamming_distance candidate baseline \<le> 3"
    using is_duplicate_present [OF ne len] assms(3,4) by simp
  show ?thesis
  proof (cases "hamming_distance candidate baseline \<le> 3")
    case True
    with iff have "is_duplicate (last_image_hash m) (phash img)" by simp
    from capture_duplicate [OF this] iff True show ?thesis
      by (simp add: delete_conv')
  next
    case False
    with iff have "\<not> is_duplicate (last_image_hash m) (phash img)" by simp
    from capture_new [OF this] iff False show ?thesis
      by (simp add: delete_conv' update_conv')
  qed
qed

theorem duplicate_iff_within_threshold_witness:
  "length ''0000000000000000000000000000000000000000000000000000000000000111'' = 64 \<and>
   length ''0000000000000000000000000000000000000000000000000000000000000000'' = 64 \<and>
   hamming_distance ''0000000000000000000000000000000000000000000000000000000000000111''
     ''0000000000000000000000000000000000000000000000000000000000000000'' \<le> 3 \<and>
   snd (capture_screenshot (Written 1700000004 (\<lparr>pixels = 3, phash = Some ''0000000000000000000000000000000000000000000000000000000000000111'', md5 = ''26ab0db90d72e28ad0ba1e22ee510510'', renders = True\<rparr>))
     (\<lparr>screenshots_dir = [(''screenshot_1700000000.png'', \<lparr>pixels = 1, phash = Some ''0000000000000000000000000000000000000000000000000000000000000000'', md5 = ''6f5902ac237024bdd0c176cb93063dc4'', renders = True\<rparr>)], last_image_hash = Some ''0000000000000000000000000000000000000000000000000000000000000000'', reached_duplicate = False, ebook_pdf = None\<rparr>)) = None"
proof -
  let ?img = "\<lparr>pixels = 3, phash = Some ''0000000000000000000000000000000000000000000000000000000000000111'', md5 = ''26ab0db90d72e28ad0ba1e22ee510510'', renders = True\<rparr>"
  let ?m = "\<lparr>screenshots_dir = [(''screenshot_1700000000.png'', \<lparr>pixels = 1, phash = Some ''0000000000000000000000000000000000000000000000000000000000000000'', md5 = ''6f5902ac237024bdd0c176cb93063dc4'', renders = True\<rparr>)], last_image_hash = Some ''0000000000000000000000000000000000000000000000000000000000000000'', reached_duplicate = False, ebook_pdf = None\<rparr>"
  have h: "length ''0000000000000000000000000000000000000000000000000000000000000111'' = 64"
    "length ''0000000000000000000000000000000000000000000000000000000000000000'' = 64"
    "phash ?img = Some ''0000000000000000000000000000000000000000000000000000000000000111''"
    "last_image_hash ?m = Some ''0000000000000000000000000000000000000000000000000000000000000000''"
    by simp_all
  note th = duplicate_iff_within_threshold [OF h, of 1700000004]
  have "is_duplicate (last_image_hash ?m) (phash ?img)"
    by (simp add: is_duplicate_def phash_distance_def)
  with th have ham: "hamming_distance ''0000000000000000000000000000000000000000000000000000000000000111''
     ''0000000000000000000000000000000000000000000000000000000000000000'' \<le> 3"
    by blast
  obtain m' shot where c: "capture_screenshot (Written 1700000004 ?img) ?m = (m', shot)"
    by (cases "capture_screenshot (Written 1700000004 ?img) ?m")
  from th ham have "case capture_screenshot (Written 1700000004 ?img) ?m of
      (m', shot) \<Rightarrow> shot = None \<and> reached_duplicate m' \<and>
        map_of (screenshots_dir m') = (map_of (screenshots_dir ?m))(tmp_path 1700000004 := None)"
    by (simp only: if_True)
  with c have "shot = None"
    by (simp only: prod.case)
  with c h(1,2) ham show ?thesis
    by (simp only: snd_conv)
qed

section \<open>File names and the directory\<close>

lemma digits_chars: "set (digits n) \<subseteq> set ''0123456789''"
proof (induction n rule: digits.induct)
  case (1 n)
  show ?case
  proof (cases "n < 10")
    case True
    then have "''0123456789'' ! n \<in> set ''0123456789''"
      by (intro nth_mem) simp
    with True show ?thesis
      by (subst digits.simps) simp
  next
    case False
    have "n mod 10 < 10" by simp
    then have "''0123456789'' ! (n mod 10) \<in> set ''0123456789''"
      by (intro nth_mem) simp
    with False 1 show ?thesis
      by (subst digits.simps) simp
  qed
qed

lemma digits_no_p: "CHR ''p'' \<notin> set (digits n)"
proof
  assume "CHR ''p'' \<in> set (digits n)"
  then have "CHR ''p'' \<in> set ''0123456789''"
    using digits_chars by (rule subsetD [rotated])
  then show False by simp
qed

lemma str_int_no_p: "CHR ''p'' \<notin> set (str_int i)"
  by (simp add: str_int_def digits_no_p)

lemma final_path_neq_tmp_path: "final_path t \<noteq> tmp_path t'"
proof
  assume "final_path t = tmp_path t'"
  then have "str_int t @ ''.png'' = str_int t' @ ''_tmp.png''"
    unfolding final_path_def tmp_path_def by (simp only: same_append_eq)
  also have "str_int t' @ ''_tmp.png'' = (str_int t' @ ''_tmp'') @ ''.png''"
    by simp
  finally have "str_int t = str_int t' @ ''_tmp''"
    by (simp only: append_same_eq)
  then have "CHR ''p'' \<in> set (str_int t)"
    by simp
  with str_int_no_p show False
    by contradiction
qed
lemma fold_delete_keys:
  "fst ` set (fold (\<lambda>file_path. AList.delete (fst file_path)) ps al) = fst ` set al - fst ` set ps"
proof (induction ps arbitrary: al)
  case Nil
  show ?case by simp
next
  case (Cons p ps)
  have "fst ` set (AList.delete (fst p) al) = fst ` set al - {fst p}"
    by (induction al) auto
  with Cons show ?case by auto
qed

lemma clear_screenshots_folder_empty: "clear_screenshots_folder dir = []"
proof -
  have "fst ` set (clear_screenshots_folder dir) = {}"
    by (simp add: clear_screenshots_folder_def fold_delete_keys)
  then show ?thesis by simp
qed
lemma page_store_duplicate:
  assumes "is_duplicate (last_image_hash m) (phash img)"
  shows "page_store (fst (capture_screenshot (Written t img) m)) = page_store m"
proof (rule ext)
  fix x
  have "final_path x \<noteq> tmp_path t"
    by (rule final_path_neq_tmp_path)
  with capture_duplicate [OF assms, of t] show
    "page_store (fst (capture_screenshot (Written t img) m)) x = page_store m x"
    by (simp add: page_store_def delete_conv')
qed

section \<open>The capture loop\<close>

lemma create_pdf_frame:
  "screenshots_dir (create_pdf m) = screenshots_dir m \<and>
   last_image_hash (create_pdf m) = last_image_hash m \<and>
   reached_duplicate (create_pdf m) = reached_duplicate m"
  by (simp add: create_pdf_def Let_def split: list.splits option.splits)

lemma capture_path_not_duplicate:
  "capture_screenshot e m = (m', Some p) \<Longrightarrow> \<not> reached_duplicate m'"
  by (cases e) (auto simp: Let_def split: if_splits)

lemma loop_body_duplicate:
  assumes "\<not> focus_changed target e" and "window e = Written t img"
    and "is_duplicate (last_image_hash (mgr s)) (phash img)"
  shows "loop_body target e s =
    (if duplicate_count s + 1 \<ge> max_duplicates
     then finish MaxDuplicatesReached
       (s\<lparr>effects := effects s @ [Sleep PageLoadDelay, CaptureScreenshot],
          mgr := (mgr s)\<lparr>screenshots_dir := AList.delete (tmp_path t) (screenshots_dir (mgr s)),
                           reached_duplicate := True\<rparr>,
          duplicate_count := duplicate_count s + 1\<rparr>)
     else advance (key_delivery e)
       (s\<lparr>effects := effects s @ [Sleep PageLoadDelay, CaptureScreenshot],
          mgr := (mgr s)\<lparr>screenshots_dir := AList.delete (tmp_path t) (screenshots_dir (mgr s)),
                           reached_duplicate := True\<rparr>,
          duplicate_count := duplicate_count s + 1\<rparr>))"
  using assms capture_duplicate [OF assms(3), of t]
  by (simp add: loop_body_def Let_def del: capture_screenshot.simps)

lemma loop_body_new:
  assumes "\<not> focus_changed target e" and "capture_screenshot (window e) (mgr s) = (m', Some p)"
  shows "loop_body target e s =
    advance (key_delivery e)
      (s\<lparr>effects := effects s @ [Sleep PageLoadDelay, CaptureScreenshot],
         mgr := m', duplicate_count := 0\<rparr>)"
  using assms capture_path_not_duplicate [OF assms(2)]
  by (simp add: loop_body_def Let_def)

lemma capture_loop_append:
  "capture_loop target xs s = Running s' \<Longrightarrow>
   capture_loop target (xs @ ys) s = capture_loop target ys s'"
proof (induction xs arbitrary: s)
  case Nil
  then show ?case by simp
next
  case (Cons x xs)
  obtain r s1 where body: "loop_body target x s = (r, s1)"
    by (cases "loop_body target x s")
  show ?case
  proof (cases r)
    case Continue
    with Cons.prems body have "capture_loop target xs s1 = Running s'" by simp
    from Cons.IH [OF this] Continue body show ?thesis by simp
  next
    case (Break reason)
    with Cons.prems body show ?thesis by simp
  qed
qed

lemma page_store_delete_tmp:
  "page_store (m\<lparr>screenshots_dir := AList.delete (tmp_path t) (screenshots_dir m),
                 reached_duplicate := b\<rparr>) = page_store m"
proof (rule ext)
  fix x
  have "final_path x \<noteq> tmp_path t"
    by (rule final_path_neq_tmp_path)
  then show "page_store (m\<lparr>screenshots_dir := AList.delete (tmp_path t) (screenshots_dir m),
                 reached_duplicate := b\<rparr>) x = page_store m x"
    by (simp add: page_store_def delete_conv')
qed

lemma page_store_create_pdf: "page_store (create_pdf m) = page_store m"
  by (rule ext) (simp add: page_store_def create_pdf_frame)

lemma duplicate_step_continue:
  assumes "\<not> focus_changed target d" and "window d = Written t img"
    and "is_duplicate (last_image_hash (mgr s)) (phash img)"
    and "send_right_arrow (key_delivery d)"
    and "duplicate_count s + 1 < max_duplicates"
  shows "\<exists>s1. loop_body target d s = (Continue, s1) \<and>
           duplicate_count s1 = duplicate_count s + 1 \<and>
           page_store (mgr s1) = page_store (mgr s) \<and>
           last_image_hash (mgr s1) = last_image_hash (mgr s)"
  using assms(4,5) loop_body_duplicate [OF assms(1,2,3)]
  by (simp add: advance_def Let_def page_store_delete_tmp)

lemma duplicate_step_stop:
  assumes "\<not> focus_changed target d" and "window d = Written t img"
    and "is_duplicate (last_image_hash (mgr s)) (phash img)"
    and "max_duplicates \<le> duplicate_count s + 1"
  shows "\<exists>s1. loop_body target d s = (Break MaxDuplicatesReached, s1) \<and>
           duplicate_count s1 = duplicate_count s + 1 \<and>
           effects s1 = effects s @ [Sleep PageLoadDelay, CaptureScreenshot, CreatePdf] \<and>
           page_store (mgr s1) = page_store (mgr s) \<and>
           last_image_hash (mgr s1) = last_image_hash (mgr s)"
  using assms(4) loop_body_duplicate [OF assms(1,2,3)]
  by (simp add: finish_def page_store_create_pdf page_store_delete_tmp create_pdf_frame)

lemma duplicates_keep_running:
  assumes "\<forall>d \<in> set dups. \<not> focus_changed target d \<and> send_right_arrow (key_delivery d) \<and>
             (\<exists>t img. window d = Written t img \<and> is_duplicate base (phash img))"
    and "last_image_hash (mgr s) = base"
    and "duplicate_count s + int (length dups) < max_duplicates"
  shows "\<exists>s'. capture_loop target dups s = Running s' \<and>
           duplicate_count s' = duplicate_count s + int (length dups) \<and>
           page_store (mgr s') = page_store (mgr s) \<and>
           last_image_hash (mgr s') = base"
  using assms
proof (induction dups arbitrary: s)
  case Nil
  then show ?case by simp
next
  case (Cons d dups)
  from Cons.prems(1) obtain t img where
    d: "\<not> focus_changed target d" "send_right_arrow (key_delivery d)"
       "window d = Written t img" "is_duplicate base (phash img)"
    by auto
  from d(4) Cons.prems(2) have dup: "is_duplicate (last_image_hash (mgr s)) (phash img)"
    by simp
  from Cons.prems(3) have below: "duplicate_count s + 1 < max_duplicates"
    by simp
  from duplicate_step_continue [OF d(1) d(3) dup d(2) below] obtain s1 where
    s1: "loop_body target d s = (Continue, s1)"
        "duplicate_count s1 = duplicate_count s + 1"
        "page_store (mgr s1) = page_store (mgr s)"
        "last_image_hash (mgr s1) = last_image_hash (mgr s)"
    by blast
  have "\<exists>s'. capture_loop target dups s1 = Running s' \<and>
           duplicate_count s' = duplicate_count s1 + int (length dups) \<and>
           page_store (mgr s') = page_store (mgr s1) \<and>
           last_image_hash (mgr s') = base"
  proof (rule Cons.IH)
    show "\<forall>d \<in> set dups. \<not> focus_changed target d \<and> send_right_arrow (key_delivery d) \<and>
             (\<exists>t img. window d = Written t img \<and> is_duplicate base (phash img))"
      using Cons.prems(1) by simp
    show "last_image_hash (mgr s1) = base"
      using s1(4) Cons.prems(2) by simp
    show "duplicate_count s1 + int (length dups) < max_duplicates"
      using s1(2) Cons.prems(3) by simp
  qed
  then obtain s' where
    "capture_loop target dups s1 = Running s'"
    "duplicate_count s' = duplicate_count s1 + int (length dups)"
    "page_store (mgr s') = page_store (mgr s1)"
    "last_image_hash (mgr s') = base"
    by blast
  with s1 show ?case by simp
qed


lemma advance_duplicate_count: "duplicate_count (snd (advance a s)) = duplicate_count s"
  by (simp add: advance_def finish_def Let_def)

lemma new_page_resets_count:
  assumes "\<not> focus_changed target e" and "snd (capture_screenshot (window e) (mgr s)) \<noteq> None"
  shows "duplicate_count (snd (loop_body target e s)) = 0"
proof -
  obtain m' shot where c: "capture_screenshot (window e) (mgr s) = (m', shot)"
    by (cases "capture_screenshot (window e) (mgr s)")
  with assms(2) obtain p where "shot = Some p" by auto
  with c have "capture_screenshot (window e) (mgr s) = (m', Some p)" by simp
  from loop_body_new [OF assms(1) this] show ?thesis
    by (simp add: advance_duplicate_count)
qed

lemma duplicate_increments_count:
  assumes "\<not> focus_changed target e" and "window e = Written t img"
    and "is_duplicate (last_image_hash (mgr s)) (phash img)"
  shows "duplicate_count (snd (loop_body target e s)) = duplicate_count s + 1"
  using loop_body_duplicate [OF assms]
  by (simp add: advance_duplicate_count finish_def)

lemma ten_duplicates_complete:
  assumes "duplicate_count s = 0" and "length dups = 10"
    and "\<forall>d \<in> set dups. \<not> focus_changed target d \<and>
           (\<exists>t img. window d = Written t img \<and>
              is_duplicate (last_image_hash (mgr s)) (phash img))"
    and "\<forall>d \<in> set (butlast dups). send_right_arrow (key_delivery d)"
  shows "\<exists>s'. capture_loop target (dups @ rest) s = Stopped MaxDuplicatesReached s' rest \<and>
           duplicate_count s' = 10 \<and> page_store (mgr s') = page_store (mgr s)"
proof -
  let ?front = "take 9 dups"
  let ?d = "dups ! 9"
  have split: "dups = ?front @ [?d]"
    using assms(2) take_Suc_conv_app_nth [of 9 dups] by simp
  have d_in: "?d \<in> set dups"
    using assms(2) by (intro nth_mem) simp
  have front: "\<forall>d \<in> set ?front. \<not> focus_changed target d \<and> send_right_arrow (key_delivery d) \<and>
           (\<exists>t img. window d = Written t img \<and>
              is_duplicate (last_image_hash (mgr s)) (phash img))"
  proof
    fix d
    assume d: "d \<in> set ?front"
    then have "d \<in> set dups"
      by (rule in_set_takeD)
    moreover have "d \<in> set (butlast dups)"
      using d assms(2) by (simp add: butlast_conv_take)
    ultimately show "\<not> focus_changed target d \<and> send_right_arrow (key_delivery d) \<and>
           (\<exists>t img. window d = Written t img \<and>
              is_duplicate (last_image_hash (mgr s)) (phash img))"
      using assms(3,4) by blast
  qed
  have "duplicate_count s + int (length ?front) < max_duplicates"
    using assms(1,2) by (simp add: max_duplicates_def)
  from duplicates_keep_running [OF front refl this] obtain s9 where
    s9: "capture_loop target ?front s = Running s9"
        "duplicate_count s9 = duplicate_count s + int (length ?front)"
        "page_store (mgr s9) = page_store (mgr s)"
        "last_image_hash (mgr s9) = last_image_hash (mgr s)"
    by blast
  from assms(3) d_in obtain t img where
    d: "\<not> focus_changed target ?d" "window ?d = Written t img"
       "is_duplicate (last_image_hash (mgr s)) (phash img)"
    by blast
  have dup: "is_duplicate (last_image_hash (mgr s9)) (phash img)"
    using d(3) s9(4) by simp
  have reached: "max_duplicates \<le> duplicate_count s9 + 1"
    using s9(2) assms(1,2) by (simp add: max_duplicates_def)
  from duplicate_step_stop [OF d(1,2) dup reached] obtain s' where
    s': "loop_body target ?d s9 = (Break MaxDuplicatesReached, s')"
        "duplicate_count s' = duplicate_count s9 + 1"
        "page_store (mgr s') = page_store (mgr s9)"
    by blast
  have "capture_loop target (?front @ (?d # rest)) s = capture_loop target (?d # rest) s9"
    by (rule capture_loop_append [OF s9(1)])
  also have "\<dots> = Stopped MaxDuplicatesReached s' rest"
    using s'(1) by simp
  finally have run: "capture_loop target (?front @ (?d # rest)) s =
      Stopped MaxDuplicatesReached s' rest" .
  have "dups @ rest = (?front @ [?d]) @ rest"
    using split by simp
  then have eq: "dups @ rest = ?front @ (?d # rest)"
    by simp
  have stopped: "capture_loop target (dups @ rest) s = Stopped MaxDuplicatesReached s' rest"
    using run by (simp only: eq)
  have count: "duplicate_count s' = 10"
    using s'(2) s9(2) assms(1,2) by simp
  have store: "page_store (mgr s') = page_store (mgr s)"
    using s'(3) s9(3) by simp
  from stopped count store show ?thesis
    by blast
qed

lemma fewer_duplicates_keep_running:
  assumes "duplicate_count s = 0" and "length dups = 10" and "k < 10"
    and "\<forall>d \<in> set dups. \<not> focus_changed target d \<and>
           (\<exists>t img. window d = Written t img \<and>
              is_duplicate (last_image_hash (mgr s)) (phash img))"
    and "\<forall>d \<in> set (butlast dups). send_right_arrow (key_delivery d)"
  shows "\<exists>s'. capture_loop target (take k dups) s = Running s' \<and> duplicate_count s' = int k"
proof -
  have front: "\<forall>d \<in> set (take k dups). \<not> focus_changed target d \<and>
           send_right_arrow (key_delivery d) \<and>
           (\<exists>t img. window d = Written t img \<and>
              is_duplicate (last_image_hash (mgr s)) (phash img))"
  proof
    fix d
    assume d: "d \<in> set (take k dups)"
    then have "d \<in> set dups"
      by (rule in_set_takeD)
    moreover have "set (take k dups) \<subseteq> set (take 9 dups)"
      using assms(3) by (intro set_take_subset_set_take) simp
    then have "d \<in> set (butlast dups)"
      using d assms(2) by (auto simp: butlast_conv_take)
    ultimately show "\<not> focus_changed target d \<and> send_right_arrow (key_delivery d) \<and>
           (\<exists>t img. window d = Written t img \<and>
              is_duplicate (last_image_hash (mgr s)) (phash img))"
      using assms(4,5) by blast
  qed
  have "duplicate_count s + int (length (take k dups)) < max_duplicates"
    using assms(1,2,3) by (simp add: max_duplicates_def)
  from duplicates_keep_running [OF front refl this] assms(1,2,3) show ?thesis
    by auto
qed


text \<open>
  C3. A frame that is stored resets the counter of consecutive duplicates to 0 and a frame
  classified as a duplicate adds 1 to it; when the counter reaches the maximum of 10 the loop
  stops after writing the document, without sending the key. Hence ten iterations in a row
  that each capture a duplicate of the baseline (the focus is kept, and the key is delivered
  after each of the first nine, so that the ten captures take place) end the loop at the
  tenth and not before, and the pages stored are those stored before.
\<close>

theorem duplicate_counter_completes_after_ten:
  "(\<not> focus_changed target e_new \<and>
      snd (capture_screenshot (window e_new) (mgr s_new)) \<noteq> None \<longrightarrow>
      duplicate_count (snd (loop_body target e_new s_new)) = 0) \<and>
   (\<not> focus_changed target e_dup \<and> window e_dup = Written t img \<and>
      is_duplicate (last_image_hash (mgr s_dup)) (phash img) \<longrightarrow>
      duplicate_count (snd (loop_body target e_dup s_dup)) = duplicate_count s_dup + 1 \<and>
      (max_duplicates \<le> duplicate_count s_dup + 1 \<longrightarrow>
         (\<exists>s'. loop_body target e_dup s_dup = (Break MaxDuplicatesReached, s') \<and>
            terminal_state MaxDuplicatesReached = Completed \<and>
            effects s' = effects s_dup @ [Sleep PageLoadDelay, CaptureScreenshot, CreatePdf]))) \<and>
   (duplicate_count s = 0 \<and> length dups = 10 \<and>
      (\<forall>d \<in> set dups. \<not> focus_changed target d \<and>
         (\<exists>t img. window d = Written t img \<and>
            is_duplicate (last_image_hash (mgr s)) (phash img))) \<and>
      (\<forall>d \<in> set (butlast dups). send_right_arrow (key_delivery d)) \<longrightarrow>
      (\<exists>s'. capture_loop target (dups @ rest) s = Stopped MaxDuplicatesReached s' rest \<and>
         duplicate_count s' = 10 \<and> page_store (mgr s') = page_store (mgr s)) \<and>
      (\<forall>k < 10. \<exists>s'. capture_loop target (take k dups) s = Running s' \<and>
         duplicate_count s' = int k))"
proof (intro conjI impI allI)
  assume "\<not> focus_changed target e_new \<and>
      snd (capture_screenshot (window e_new) (mgr s_new)) \<noteq> None"
  then show "duplicate_count (snd (loop_body target e_new s_new)) = 0"
    using new_page_resets_count by blast
next
  assume a: "\<not> focus_changed target e_dup \<and> window e_dup = Written t img \<and>
      is_duplicate (last_image_hash (mgr s_dup)) (phash img)"
  then show "duplicate_count (snd (loop_body target e_dup s_dup)) = duplicate_count s_dup + 1"
    using duplicate_increments_count by blast
  assume "max_duplicates \<le> duplicate_count s_dup + 1"
  with a duplicate_step_stop [of target e_dup t img s_dup]
  show "\<exists>s'. loop_body target e_dup s_dup = (Break MaxDuplicatesReached, s') \<and>
            terminal_state MaxDuplicatesReached = Completed \<and>
            effects s' = effects s_dup @ [Sleep PageLoadDelay, CaptureScreenshot, CreatePdf]"
    by auto
next
  assume a: "duplicate_count s = 0 \<and> length dups = 10 \<and>
      (\<forall>d \<in> set dups. \<not> focus_changed target d \<and>
         (\<exists>t img. window d = Written t img \<and>
            is_duplicate (last_image_hash (mgr s)) (phash img))) \<and>
      (\<forall>d \<in> set (butlast dups). send_right_arrow (key_delivery d))"
  then show "\<exists>s'. capture_loop target (dups @ rest) s = Stopped MaxDuplicatesReached s' rest \<and>
         duplicate_count s' = 10 \<and> page_store (mgr s') = page_store (mgr s)"
    using ten_duplicates_complete [of s dups target rest] by blast
  fix k :: nat
  assume "k < 10"
  with a show "\<exists>s'. capture_loop target (take k dups) s = Running s' \<and>
         duplicate_count s' = int k"
    using fewer_duplicates_keep_running [of s dups k target] by blast
qed

theorem duplicate_counter_completes_after_ten_witness:
  "duplicate_count (snd (loop_body ''com.apple.iBooksX''
      (\<lparr>frontmost = Some ''com.apple.iBooksX'', window = Written 1700000002 (\<lparr>pixels = 2, phash = Some ''1111111111111111111111111111111111111111111111111111111111111111'', md5 = ''b026324c6904b2a9cb4b88d6d61c81d1'', renders = True\<rparr>), key_delivery = PrimaryDelivered\<rparr>)
      (\<lparr>mgr = \<lparr>screenshots_dir = [(''screenshot_1700000000.png'', \<lparr>pixels = 1, phash = Some ''0000000000000000000000000000000000000000000000000000000000000000'', md5 = ''6f5902ac237024bdd0c176cb93063dc4'', renders = True\<rparr>)], last_image_hash = Some ''0000000000000000000000000000000000000000000000000000000000000000'', reached_duplicate = False, ebook_pdf = None\<rparr>, duplicate_count = 7, effects = []\<rparr>))) = 0 \<and>
   duplicate_count (snd (loop_body ''com.apple.iBooksX''
      (\<lparr>frontmost = Some ''com.apple.iBooksX'', window = Written 1700000004 (\<lparr>pixels = 1, phash = Some ''0000000000000000000000000000000000000000000000000000000000000000'', md5 = ''6f5902ac237024bdd0c176cb93063dc4'', renders = True\<rparr>), key_delivery = PrimaryDelivered\<rparr>)
      (\<lparr>mgr = \<lparr>screenshots_dir = [(''screenshot_1700000000.png'', \<lparr>pixels = 1, phash = Some ''0000000000000000000000000000000000000000000000000000000000000000'', md5 = ''6f5902ac237024bdd0c176cb93063dc4'', renders = True\<rparr>)], last_image_hash = Some ''0000000000000000000000000000000000000000000000000000000000000000'', reached_duplicate = False, ebook_pdf = None\<rparr>, duplicate_count = 9, effects = []\<rparr>))) = 9 + 1 \<and>
   (\<exists>s'. loop_body ''com.apple.iBooksX''
      (\<lparr>frontmost = Some ''com.apple.iBooksX'', window = Written 1700000004 (\<lparr>pixels = 1, phash = Some ''0000000000000000000000000000000000000000000000000000000000000000'', md5 = ''6f5902ac237024bdd0c176cb93063dc4'', renders = True\<rparr>), key_delivery = PrimaryDelivered\<rparr>)
      (\<lparr>mgr = \<lparr>screenshots_dir = [(''screenshot_1700000000.png'', \<lparr>pixels = 1, phash = Some ''0000000000000000000000000000000000000000000000000000000000000000'', md5 = ''6f5902ac237024bdd0c176cb93063dc4'', renders = True\<rparr>)], last_image_hash = Some ''0000000000000000000000000000000000000000000000000000000000000000'', reached_duplicate = False, ebook_pdf = None\<rparr>, duplicate_count = 9, effects = []\<rparr>) = (Break MaxDuplicatesReached, s') \<and>
      terminal_state MaxDuplicatesReached = Completed \<and>
      effects s' = [] @ [Sleep PageLoadDelay, CaptureScreenshot, CreatePdf]) \<and>
   (\<exists>s'. capture_loop ''com.apple.iBooksX''
      ((map (\<lambda>k. \<lparr>frontmost = Some ''com.apple.iBooksX'', window = Written (1700000004 + 2 * int k) (\<lparr>pixels = 1, phash = Some ''0000000000000000000000000000000000000000000000000000000000000000'', md5 = ''6f5902ac237024bdd0c176cb93063dc4'', renders = True\<rparr>), key_delivery = PrimaryDelivered\<rparr>) [0..<9] @ [\<lparr>frontmost = Some ''com.apple.iBooksX'', window = Written 1700000022 (\<lparr>pixels = 1, phash = Some ''0000000000000000000000000000000000000000000000000000000000000000'', md5 = ''6f5902ac237024bdd0c176cb93063dc4'', renders = True\<rparr>), key_delivery = BothRejected\<rparr>]) @ [])
      (\<lparr>mgr = \<lparr>screenshots_dir = [(''screenshot_1700000000.png'', \<lparr>pixels = 1, phash = Some ''0000000000000000000000000000000000000000000000000000000000000000'', md5 = ''6f5902ac237024bdd0c176cb93063dc4'', renders = True\<rparr>)], last_image_hash = Some ''0000000000000000000000000000000000000000000000000000000000000000'', reached_duplicate = False, ebook_pdf = None\<rparr>, duplicate_count = 0, effects = []\<rparr>) = Stopped MaxDuplicatesReached s' [] \<and>
      duplicate_count s' = 10 \<and>
      page_store (mgr s') = page_store (\<lparr>screenshots_dir = [(''screenshot_1700000000.png'', \<lparr>pixels = 1, phash = Some ''0000000000000000000000000000000000000000000000000000000000000000'', md5 = ''6f5902ac237024bdd0c176cb93063dc4'', renders = True\<rparr>)], last_image_hash = Some ''0000000000000000000000000000000000000000000000000000000000000000'', reached_duplicate = False, ebook_pdf = None\<rparr>)) \<and>
   (\<exists>s'. capture_loop ''com.apple.iBooksX''
      (take 9 (map (\<lambda>k. \<lparr>frontmost = Some ''com.apple.iBooksX'', window = Written (1700000004 + 2 * int k) (\<lparr>pixels = 1, phash = Some ''0000000000000000000000000000000000000000000000000000000000000000'', md5 = ''6f5902ac237024bdd0c176cb93063dc4'', renders = True\<rparr>), key_delivery = PrimaryDelivered\<rparr>) [0..<9] @ [\<lparr>frontmost = Some ''com.apple.iBooksX'', window = Written 1700000022 (\<lparr>pixels = 1, phash = Some ''0000000000000000000000000000000000000000000000000000000000000000'', md5 = ''6f5902ac237024bdd0c176cb93063dc4'', renders = True\<rparr>), key_delivery = BothRejected\<rparr>]))
      (\<lparr>mgr = \<lparr>screenshots_dir = [(''screenshot_1700000000.png'', \<lparr>pixels = 1, phash = Some ''0000000000000000000000000000000000000000000000000000000000000000'', md5 = ''6f5902ac237024bdd0c176cb93063dc4'', renders = True\<rparr>)], last_image_hash = Some ''0000000000000000000000000000000000000000000000000000000000000000'', reached_duplicate = False, ebook_pdf = None\<rparr>, duplicate_count = 0, effects = []\<rparr>) = Running s' \<and>
      duplicate_count s' = int 9)"
proof -
  let ?T = "''com.apple.iBooksX''"
  let ?e_new = "\<lparr>frontmost = Some ''com.apple.iBooksX'', window = Written 1700000002 (\<lparr>pixels = 2, phash = Some ''1111111111111111111111111111111111111111111111111111111111111111'', md5 = ''b026324c6904b2a9cb4b88d6d61c81d1'', renders = True\<rparr>), key_delivery = PrimaryDelivered\<rparr>"
  let ?e_dup = "\<lparr>frontmost = Some ''com.apple.iBooksX'', window = Written 1700000004 (\<lparr>pixels = 1, phash = Some ''0000000000000000000000000000000000000000000000000000000000000000'', md5 = ''6f5902ac237024bdd0c176cb93063dc4'', renders = True\<rparr>), key_delivery = PrimaryDelivered\<rparr>"
  let ?s7 = "\<lparr>mgr = \<lparr>screenshots_dir = [(''screenshot_1700000000.png'', \<lparr>pixels = 1, phash = Some ''0000000000000000000000000000000000000000000000000000000000000000'', md5 = ''6f5902ac237024bdd0c176cb93063dc4'', renders = True\<rparr>)], last_image_hash = Some ''0000000000000000000000000000000000000000000000000000000000000000'', reached_duplicate = False, ebook_pdf = None\<rparr>, duplicate_count = 7, effects = []\<rparr>"
  let ?s9 = "\<lparr>mgr = \<lparr>screenshots_dir = [(''screenshot_1700000000.png'', \<lparr>pixels = 1, phash = Some ''0000000000000000000000000000000000000000000000000000000000000000'', md5 = ''6f5902ac237024bdd0c176cb93063dc4'', renders = True\<rparr>)], last_image_hash = Some ''0000000000000000000000000000000000000000000000000000000000000000'', reached_duplicate = False, ebook_pdf = None\<rparr>, duplicate_count = 9, effects = []\<rparr>"
  let ?s0 = "\<lparr>mgr = \<lparr>screenshots_dir = [(''screenshot_1700000000.png'', \<lparr>pixels = 1, phash = Some ''0000000000000000000000000000000000000000000000000000000000000000'', md5 = ''6f5902ac237024bdd0c176cb93063dc4'', renders = True\<rparr>)], last_image_hash = Some ''0000000000000000000000000000000000000000000000000000000000000000'', reached_duplicate = False, ebook_pdf = None\<rparr>, duplicate_count = 0, effects = []\<rparr>"
  let ?dups = "map (\<lambda>k. \<lparr>frontmost = Some ''com.apple.iBooksX'', window = Written (1700000004 + 2 * int k) (\<lparr>pixels = 1, phash = Some ''0000000000000000000000000000000000000000000000000000000000000000'', md5 = ''6f5902ac237024bdd0c176cb93063dc4'', renders = True\<rparr>), key_delivery = PrimaryDelivered\<rparr>) [0..<9] @ [\<lparr>frontmost = Some ''com.apple.iBooksX'', window = Written 1700000022 (\<lparr>pixels = 1, phash = Some ''0000000000000000000000000000000000000000000000000000000000000000'', md5 = ''6f5902ac237024bdd0c176cb93063dc4'', renders = True\<rparr>), key_delivery = BothRejected\<rparr>]"
  note th = duplicate_counter_completes_after_ten
    [where target = ?T and e_new = ?e_new and s_new = ?s7 and e_dup = ?e_dup
       and t = 1700000004 and img = "\<lparr>pixels = 1, phash = Some ''0000000000000000000000000000000000000000000000000000000000000000'', md5 = ''6f5902ac237024bdd0c176cb93063dc4'', renders = True\<rparr>" and s_dup = ?s9 and s = ?s0 and dups = ?dups
       and rest = "[]"]
  have h1: "\<not> focus_changed ?T ?e_new \<and>
      snd (capture_screenshot (window ?e_new) (mgr ?s7)) \<noteq> None"
    by (simp add: focus_changed_def is_duplicate_def phash_distance_def Let_def)
  have h2: "\<not> focus_changed ?T ?e_dup \<and> window ?e_dup = Written 1700000004 (\<lparr>pixels = 1, phash = Some ''0000000000000000000000000000000000000000000000000000000000000000'', md5 = ''6f5902ac237024bdd0c176cb93063dc4'', renders = True\<rparr>) \<and>
      is_duplicate (last_image_hash (mgr ?s9)) (phash (\<lparr>pixels = 1, phash = Some ''0000000000000000000000000000000000000000000000000000000000000000'', md5 = ''6f5902ac237024bdd0c176cb93063dc4'', renders = True\<rparr>))"
    by (simp add: focus_changed_def is_duplicate_def phash_distance_def)
  have h3: "max_duplicates \<le> duplicate_count ?s9 + 1"
    by (simp add: max_duplicates_def)
  have h4: "duplicate_count ?s0 = 0 \<and> length ?dups = 10 \<and>
      (\<forall>d \<in> set ?dups. \<not> focus_changed ?T d \<and>
         (\<exists>t img. window d = Written t img \<and>
            is_duplicate (last_image_hash (mgr ?s0)) (phash img))) \<and>
      (\<forall>d \<in> set (butlast ?dups). send_right_arrow (key_delivery d))"
    by (simp add: focus_changed_def is_duplicate_def phash_distance_def)
  have h5: "(9::nat) < 10" by simp
  from th h1 have c1: "duplicate_count (snd (loop_body ?T ?e_new ?s7)) = 0"
    by blast
  from th h2 h3 have c2: "duplicate_count (snd (loop_body ?T ?e_dup ?s9)) = duplicate_count ?s9 + 1 \<and>
      (\<exists>s'. loop_body ?T ?e_dup ?s9 = (Break MaxDuplicatesReached, s') \<and>
            terminal_state MaxDuplicatesReached = Completed \<and>
            effects s' = effects ?s9 @ [Sleep PageLoadDelay, CaptureScreenshot, CreatePdf])"
    by blast
  from th h4 h5 have c3: "(\<exists>s'. capture_loop ?T (?dups @ []) ?s0 = Stopped MaxDuplicatesReached s' [] \<and>
         duplicate_count s' = 10 \<and> page_store (mgr s') = page_store (mgr ?s0)) \<and>
      (\<exists>s'. capture_loop ?T (take 9 ?dups) ?s0 = Running s' \<and> duplicate_count s' = int 9)"
    by blast
  have sel: "duplicate_count ?s9 = 9" "effects ?s9 = []" "mgr ?s0 = \<lparr>screenshots_dir = [(''screenshot_1700000000.png'', \<lparr>pixels = 1, phash = Some ''0000000000000000000000000000000000000000000000000000000000000000'', md5 = ''6f5902ac237024bdd0c176cb93063dc4'', renders = True\<rparr>)], last_image_hash = Some ''0000000000000000000000000000000000000000000000000000000000000000'', reached_duplicate = False, ebook_pdf = None\<rparr>"
    by simp_all
  from c1 c2 c3 show ?thesis
    unfolding sel by blast
qed




text \<open>
  C5, evaluated at an input that fails it. A page is stored, the next capture is a duplicate
  of it, and the third call finds no visible window (line 213): it returns without
  resetting \<open>reached_duplicate\<close>, so the loop counts a second duplicate and sends the key
  instead of waiting for the retry interval. Where the image cannot be created (line 228)
  the flag is reset, the counter stays at 1 and the loop waits and retries.
\<close>

theorem no_visible_window_counted_as_duplicate:
  "capture_loop ''com.apple.iBooksX''
     [\<lparr>frontmost = Some ''com.apple.iBooksX'', window = Written 1700000000 (\<lparr>pixels = 1, phash = Some ''0000000000000000000000000000000000000000000000000000000000000000'', md5 = ''6f5902ac237024bdd0c176cb93063dc4'', renders = True\<rparr>), key_delivery = PrimaryDelivered\<rparr>,
      \<lparr>frontmost = Some ''com.apple.iBooksX'', window = Written 1700000002 (\<lparr>pixels = 1, phash = Some ''0000000000000000000000000000000000000000000000000000000000000000'', md5 = ''6f5902ac237024bdd0c176cb93063dc4'', renders = True\<rparr>), key_delivery = PrimaryDelivered\<rparr>,
      \<lparr>frontmost = Some ''com.apple.iBooksX'', window = NoVisibleWindow, key_delivery = PrimaryDelivered\<rparr>]
     (start_loop (new_app_manager [] None)) =
   Running \<lparr>mgr = \<lparr>screenshots_dir = [(''screenshot_1700000000.png'', \<lparr>pixels = 1, phash = Some ''0000000000000000000000000000000000000000000000000000000000000000'', md5 = ''6f5902ac237024bdd0c176cb93063dc4'', renders = True\<rparr>)], last_image_hash = Some ''0000000000000000000000000000000000000000000000000000000000000000'', reached_duplicate = True, ebook_pdf = None\<rparr>,
     duplicate_count = 2,
     effects = [Sleep PostFocusDelay, Sleep PageLoadDelay, CaptureScreenshot, SendRightArrow, Sleep PostKeyDelay,
       Sleep PageLoadDelay, CaptureScreenshot, SendRightArrow, Sleep PostKeyDelay,
       Sleep PageLoadDelay, CaptureScreenshot, SendRightArrow, Sleep PostKeyDelay]\<rparr> \<and>
   capture_loop ''com.apple.iBooksX''
     [\<lparr>frontmost = Some ''com.apple.iBooksX'', window = Written 1700000000 (\<lparr>pixels = 1, phash = Some ''0000000000000000000000000000000000000000000000000000000000000000'', md5 = ''6f5902ac237024bdd0c176cb93063dc4'', renders = True\<rparr>), key_delivery = PrimaryDelivered\<rparr>,
      \<lparr>frontmost = Some ''com.apple.iBooksX'', window = Written 1700000002 (\<lparr>pixels = 1, phash = Some ''0000000000000000000000000000000000000000000000000000000000000000'', md5 = ''6f5902ac237024bdd0c176cb93063dc4'', renders = True\<rparr>), key_delivery = PrimaryDelivered\<rparr>,
      \<lparr>frontmost = Some ''com.apple.iBooksX'', window = ImageNone, key_delivery = PrimaryDelivered\<rparr>]
     (start_loop (new_app_manager [] None)) =
   Running \<lparr>mgr = \<lparr>screenshots_dir = [(''screenshot_1700000000.png'', \<lparr>pixels = 1, phash = Some ''0000000000000000000000000000000000000000000000000000000000000000'', md5 = ''6f5902ac237024bdd0c176cb93063dc4'', renders = True\<rparr>)], last_image_hash = Some ''0000000000000000000000000000000000000000000000000000000000000000'', reached_duplicate = False, ebook_pdf = None\<rparr>,
     duplicate_count = 1,
     effects = [Sleep PostFocusDelay, Sleep PageLoadDelay, CaptureScreenshot, SendRightArrow, Sleep PostKeyDelay,
       Sleep PageLoadDelay, CaptureScreenshot, SendRightArrow, Sleep PostKeyDelay,
       Sleep PageLoadDelay, CaptureScreenshot, Sleep RetryInterval]\<rparr>"
  by (simp add: start_loop_def new_app_manager_def clear_screenshots_folder_def
      loop_body_def advance_def focus_changed_def max_duplicates_def
      is_duplicate_def phash_distance_def Let_def
      final_path_def tmp_path_def str_int_def digits.simps)


section \<open>The document\<close>






section \<open>The stored pages\<close>

lemma digit_char_inject:
  assumes "i < 10" and "j < 10" and "''0123456789'' ! i = ''0123456789'' ! j"
  shows "i = j"
proof -
  have "distinct ''0123456789''" by simp
  moreover have "i < length ''0123456789''" "j < length ''0123456789''"
    using assms(1,2) by simp_all
  ultimately show ?thesis
    using assms(3) by (simp only: nth_eq_iff_index_eq)
qed

lemma digits_not_Nil: "digits n \<noteq> []"
  by (subst digits.simps) simp

lemma digits_small: "n < 10 \<Longrightarrow> length (digits n) = 1"
  by (subst digits.simps) simp

lemma digits_large: "\<not> n < 10 \<Longrightarrow> length (digits n) \<ge> 2"
proof -
  assume big: "\<not> n < 10"
  have "length (digits (n div 10)) \<ge> 1"
    using digits_not_Nil [of "n div 10"] by (cases "digits (n div 10)") auto
  with big show ?thesis
    by (subst digits.simps) simp
qed

lemma digits_inject: "digits n = digits k \<Longrightarrow> n = k"
proof (induction n arbitrary: k rule: digits.induct)
  case (1 n)
  show ?case
  proof (cases "n < 10")
    case True
    have ksmall: "k < 10"
    proof (rule ccontr)
      assume "\<not> k < 10"
      from digits_large [OF this] digits_small [OF True] "1.prems" show False
        by simp
    qed
    have "digits n = [''0123456789'' ! n]"
      using True by (subst digits.simps) simp
    moreover have "digits k = [''0123456789'' ! k]"
      using ksmall by (subst digits.simps) simp
    ultimately have "''0123456789'' ! n = ''0123456789'' ! k"
      using "1.prems" by simp
    from digit_char_inject [OF True ksmall this] show ?thesis .
  next
    case False
    have kbig: "\<not> k < 10"
    proof
      assume "k < 10"
      from digits_small [OF this] digits_large [OF False] "1.prems" show False
        by simp
    qed
    have "digits n = digits (n div 10) @ [''0123456789'' ! (n mod 10)]"
      using False by (subst digits.simps) simp
    moreover have "digits k = digits (k div 10) @ [''0123456789'' ! (k mod 10)]"
      using kbig by (subst digits.simps) simp
    ultimately have eq: "digits (n div 10) = digits (k div 10)"
      "''0123456789'' ! (n mod 10) = ''0123456789'' ! (k mod 10)"
      using "1.prems" by simp_all
    from "1.IH" [OF False eq(1)] have d: "n div 10 = k div 10" .
    have "n mod 10 = k mod 10"
      by (rule digit_char_inject [OF _ _ eq(2)]) simp_all
    with d show ?thesis
      by (metis div_mult_mod_eq)
  qed
qed

lemma digits_no_minus: "CHR ''-'' \<notin> set (digits n)"
proof
  assume "CHR ''-'' \<in> set (digits n)"
  then have "CHR ''-'' \<in> set ''0123456789''"
    using digits_chars by (rule subsetD [rotated])
  then show False by simp
qed

lemma str_int_inject: "str_int i = str_int j \<Longrightarrow> i = j"
proof -
  assume eq: "str_int i = str_int j"
  have pos_neg: "\<And>a b. digits a \<noteq> CHR ''-'' # digits b"
  proof
    fix a b
    assume "digits a = CHR ''-'' # digits b"
    then have "CHR ''-'' \<in> set (digits a)" by simp
    with digits_no_minus show False by blast
  qed
  show ?thesis
  proof (cases "i < 0")
    case True
    show ?thesis
    proof (cases "j < 0")
      case j: True
      from eq True j have "digits (nat (- i)) = digits (nat (- j))"
        by (simp add: str_int_def)
      then have "nat (- i) = nat (- j)" by (rule digits_inject)
      with True j show ?thesis by simp
    next
      case j: False
      from eq True j have "CHR ''-'' # digits (nat (- i)) = digits (nat j)"
        by (simp add: str_int_def)
      with pos_neg [of "nat j" "nat (- i)"] show ?thesis by simp
    qed
  next
    case False
    show ?thesis
    proof (cases "j < 0")
      case j: True
      from eq False j have "digits (nat i) = CHR ''-'' # digits (nat (- j))"
        by (simp add: str_int_def)
      with pos_neg show ?thesis by blast
    next
      case j: False
      from eq False j have "digits (nat i) = digits (nat j)"
        by (simp add: str_int_def)
      then have "nat i = nat j" by (rule digits_inject)
      with False j show ?thesis by simp
    qed
  qed
qed

lemma final_path_inject: "final_path t = final_path t' \<longleftrightarrow> t = t'"
proof
  assume "final_path t = final_path t'"
  then have "str_int t = str_int t'"
    unfolding final_path_def by (simp only: same_append_eq append_same_eq)
  then show "t = t'" by (rule str_int_inject)
qed simp

lemma update_fresh: "k \<notin> fst ` set al \<Longrightarrow> AList.update k v al = al @ [(k, v)]"
  by (induction al) auto


lemma delete_keeps_absent:
  "k \<notin> fst ` set al \<Longrightarrow> k \<notin> fst ` set (AList.delete j al)"
  by (induction al) auto

lemma capture_new_appends:
  assumes "\<not> is_duplicate (last_image_hash m) (phash img)" and "page_store m t = None"
  shows "screenshots_dir (fst (capture_screenshot (Written t img) m)) =
    AList.delete (tmp_path t) (screenshots_dir m) @ [(final_path t, img)]"
proof -
  have "final_path t \<notin> fst ` set (screenshots_dir m)"
    using assms(2) by (simp add: page_store_def map_of_eq_None_iff)
  then have "final_path t \<notin> fst ` set (AList.delete (tmp_path t) (screenshots_dir m))"
    by (rule delete_keeps_absent)
  from update_fresh [OF this] capture_new [OF assms(1), of t] show ?thesis
    by simp
qed

lemma page_store_new:
  assumes "\<not> is_duplicate (last_image_hash m) (phash img)"
  shows "page_store (fst (capture_screenshot (Written t img) m)) = (page_store m)(t \<mapsto> img)"
proof (rule ext)
  fix x
  have "final_path x \<noteq> tmp_path t"
    by (rule final_path_neq_tmp_path)
  with capture_new [OF assms, of t] show
    "page_store (fst (capture_screenshot (Written t img) m)) x = ((page_store m)(t \<mapsto> img)) x"
    by (simp add: page_store_def update_conv' delete_conv' final_path_inject)
qed

text \<open>
  C6, as the code has it. A stored page is named after the second of its capture,
  \<open>screenshot_<t>.png\<close>, and not numbered from 1. When no page of that second is in the
  directory, storing the page leaves every other entry where it was, unchanged, and adds the
  new file after them (the temporary file of the call is removed). The directory is emptied
  when the manager is created.
\<close>

theorem stored_page_named_by_capture_second:
  assumes "\<not> is_duplicate (last_image_hash m) (phash img)" and "page_store m t = None"
  shows "snd (capture_screenshot (Written t img) m) =
           Some (''screenshot_'' @ str_int t @ ''.png'') \<and>
         screenshots_dir (fst (capture_screenshot (Written t img) m)) =
           AList.delete (tmp_path t) (screenshots_dir m) @
             [(''screenshot_'' @ str_int t @ ''.png'', img)] \<and>
         page_store (fst (capture_screenshot (Written t img) m)) = (page_store m)(t \<mapsto> img) \<and>
         screenshots_dir (new_app_manager dir pdf) = []"
proof (intro conjI)
  show "snd (capture_screenshot (Written t img) m) = Some (''screenshot_'' @ str_int t @ ''.png'')"
    using capture_new [OF assms(1), of t] by (simp add: final_path_def)
  show "screenshots_dir (fst (capture_screenshot (Written t img) m)) =
      AList.delete (tmp_path t) (screenshots_dir m) @ [(''screenshot_'' @ str_int t @ ''.png'', img)]"
    using capture_new_appends [OF assms] by (simp add: final_path_def)
  show "page_store (fst (capture_screenshot (Written t img) m)) = (page_store m)(t \<mapsto> img)"
    by (rule page_store_new [OF assms(1)])
  show "screenshots_dir (new_app_manager dir pdf) = []"
    by (simp add: new_app_manager_def clear_screenshots_folder_empty)
qed

theorem stored_page_named_by_capture_second_witness:
  "snd (capture_screenshot (Written 1700000002 (\<lparr>pixels = 2, phash = Some ''1111111111111111111111111111111111111111111111111111111111111111'', md5 = ''b026324c6904b2a9cb4b88d6d61c81d1'', renders = True\<rparr>))
     (\<lparr>screenshots_dir = [(''screenshot_1700000000.png'', \<lparr>pixels = 1, phash = Some ''0000000000000000000000000000000000000000000000000000000000000000'', md5 = ''6f5902ac237024bdd0c176cb93063dc4'', renders = True\<rparr>)], last_image_hash = Some ''0000000000000000000000000000000000000000000000000000000000000000'', reached_duplicate = False, ebook_pdf = None\<rparr>)) = Some ''screenshot_1700000002.png'' \<and>
   screenshots_dir (fst (capture_screenshot (Written 1700000002 (\<lparr>pixels = 2, phash = Some ''1111111111111111111111111111111111111111111111111111111111111111'', md5 = ''b026324c6904b2a9cb4b88d6d61c81d1'', renders = True\<rparr>))
     (\<lparr>screenshots_dir = [(''screenshot_1700000000.png'', \<lparr>pixels = 1, phash = Some ''0000000000000000000000000000000000000000000000000000000000000000'', md5 = ''6f5902ac237024bdd0c176cb93063dc4'', renders = True\<rparr>)], last_image_hash = Some ''0000000000000000000000000000000000000000000000000000000000000000'', reached_duplicate = False, ebook_pdf = None\<rparr>))) =
     [(''screenshot_1700000000.png'', \<lparr>pixels = 1, phash = Some ''0000000000000000000000000000000000000000000000000000000000000000'', md5 = ''6f5902ac237024bdd0c176cb93063dc4'', renders = True\<rparr>),
      (''screenshot_1700000002.png'', \<lparr>pixels = 2, phash = Some ''1111111111111111111111111111111111111111111111111111111111111111'', md5 = ''b026324c6904b2a9cb4b88d6d61c81d1'', renders = True\<rparr>)]"
proof -
  let ?img = "\<lparr>pixels = 2, phash = Some ''1111111111111111111111111111111111111111111111111111111111111111'', md5 = ''b026324c6904b2a9cb4b88d6d61c81d1'', renders = True\<rparr>"
  let ?m = "\<lparr>screenshots_dir = [(''screenshot_1700000000.png'', \<lparr>pixels = 1, phash = Some ''0000000000000000000000000000000000000000000000000000000000000000'', md5 = ''6f5902ac237024bdd0c176cb93063dc4'', renders = True\<rparr>)], last_image_hash = Some ''0000000000000000000000000000000000000000000000000000000000000000'', reached_duplicate = False, ebook_pdf = None\<rparr>"
  have h1: "\<not> is_duplicate (last_image_hash ?m) (phash ?img)"
    by (simp add: is_duplicate_def phash_distance_def)
  have h2: "page_store ?m 1700000002 = None"
    by (simp add: page_store_def final_path_def str_int_def digits.simps)
  have name: "''screenshot_'' @ str_int 1700000002 @ ''.png'' = ''screenshot_1700000002.png''"
    by (simp add: str_int_def digits.simps)
  have tmp: "AList.delete (tmp_path 1700000002) (screenshots_dir ?m) = screenshots_dir ?m"
    by (simp add: tmp_path_def str_int_def digits.simps)
  from stored_page_named_by_capture_second [OF h1 h2]
  have "snd (capture_screenshot (Written 1700000002 ?img) ?m) =
           Some (''screenshot_'' @ str_int 1700000002 @ ''.png'')"
    and "screenshots_dir (fst (capture_screenshot (Written 1700000002 ?img) ?m)) =
           AList.delete (tmp_path 1700000002) (screenshots_dir ?m) @
             [(''screenshot_'' @ str_int 1700000002 @ ''.png'', ?img)]"
    by blast+
  then show ?thesis
    unfolding name tmp by simp
qed

text \<open>
  Two pages captured within the same second: both calls return the same name, which holds
  the capture time and not 1 or 2, and the second page replaces the first.
\<close>

theorem same_second_overwrites_counterexample:
  "snd (capture_screenshot (Written 1700000000 (\<lparr>pixels = 1, phash = Some ''0000000000000000000000000000000000000000000000000000000000000000'', md5 = ''6f5902ac237024bdd0c176cb93063dc4'', renders = True\<rparr>))
     (new_app_manager [] None)) = Some ''screenshot_1700000000.png'' \<and>
   snd (capture_screenshot (Written 1700000000 (\<lparr>pixels = 2, phash = Some ''1111111111111111111111111111111111111111111111111111111111111111'', md5 = ''b026324c6904b2a9cb4b88d6d61c81d1'', renders = True\<rparr>))
     (fst (capture_screenshot (Written 1700000000 (\<lparr>pixels = 1, phash = Some ''0000000000000000000000000000000000000000000000000000000000000000'', md5 = ''6f5902ac237024bdd0c176cb93063dc4'', renders = True\<rparr>))
       (new_app_manager [] None)))) = Some ''screenshot_1700000000.png'' \<and>
   screenshots_dir (fst (capture_screenshot (Written 1700000000 (\<lparr>pixels = 2, phash = Some ''1111111111111111111111111111111111111111111111111111111111111111'', md5 = ''b026324c6904b2a9cb4b88d6d61c81d1'', renders = True\<rparr>))
     (fst (capture_screenshot (Written 1700000000 (\<lparr>pixels = 1, phash = Some ''0000000000000000000000000000000000000000000000000000000000000000'', md5 = ''6f5902ac237024bdd0c176cb93063dc4'', renders = True\<rparr>))
       (new_app_manager [] None))))) =
     [(''screenshot_1700000000.png'', \<lparr>pixels = 2, phash = Some ''1111111111111111111111111111111111111111111111111111111111111111'', md5 = ''b026324c6904b2a9cb4b88d6d61c81d1'', renders = True\<rparr>)]"
  by (simp add: start_loop_def new_app_manager_def clear_screenshots_folder_def is_duplicate_def phash_distance_def Let_def final_path_def tmp_path_def str_int_def digits.simps)

text \<open>
  C4, as the code has it. The distance is 0 when an argument is absent or empty or the
  lengths differ. A frame whose fingerprint and baseline are both present with different
  lengths is therefore a duplicate and is not stored. When the baseline or the fingerprint
  is absent the comparison of line 271 is skipped and the frame is stored as a new page.
\<close>

theorem absent_fingerprint_skips_comparison:
  "(\<not> truthy a \<or> \<not> truthy b \<or> length (the a) \<noteq> length (the b) \<longrightarrow>
      phash_distance a b = 0) \<and>
   (truthy (last_image_hash m_len) \<and> truthy (phash img_len) \<and>
      length (the (phash img_len)) \<noteq> length (the (last_image_hash m_len)) \<longrightarrow>
      snd (capture_screenshot (Written t img_len) m_len) = None \<and>
      reached_duplicate (fst (capture_screenshot (Written t img_len) m_len)) \<and>
      page_store (fst (capture_screenshot (Written t img_len) m_len)) = page_store m_len) \<and>
   (\<not> truthy (last_image_hash m_abs) \<or> \<not> truthy (phash img_abs) \<longrightarrow>
      snd (capture_screenshot (Written t img_abs) m_abs) = Some (final_path t) \<and>
      \<not> reached_duplicate (fst (capture_screenshot (Written t img_abs) m_abs)) \<and>
      page_store (fst (capture_screenshot (Written t img_abs) m_abs)) =
        (page_store m_abs)(t \<mapsto> img_abs))"
proof (intro conjI impI)
  assume "\<not> truthy a \<or> \<not> truthy b \<or> length (the a) \<noteq> length (the b)"
  then show "phash_distance a b = 0"
    by (auto simp: phash_distance_def)
next
  assume a: "truthy (last_image_hash m_len) \<and> truthy (phash img_len) \<and>
      length (the (phash img_len)) \<noteq> length (the (last_image_hash m_len))"
  then have "phash_distance (phash img_len) (last_image_hash m_len) = 0"
    by (simp add: phash_distance_def)
  with a have dup: "is_duplicate (last_image_hash m_len) (phash img_len)"
    by (simp add: is_duplicate_def)
  from capture_duplicate [OF dup, of t]
  show "snd (capture_screenshot (Written t img_len) m_len) = None"
    and "reached_duplicate (fst (capture_screenshot (Written t img_len) m_len))"
    by simp_all
  show "page_store (fst (capture_screenshot (Written t img_len) m_len)) = page_store m_len"
    by (rule page_store_duplicate [OF dup])
next
  assume "\<not> truthy (last_image_hash m_abs) \<or> \<not> truthy (phash img_abs)"
  then have new: "\<not> is_duplicate (last_image_hash m_abs) (phash img_abs)"
    by (auto simp: is_duplicate_def)
  from capture_new [OF new, of t]
  show "snd (capture_screenshot (Written t img_abs) m_abs) = Some (final_path t)"
    and "\<not> reached_duplicate (fst (capture_screenshot (Written t img_abs) m_abs))"
    by simp_all
  show "page_store (fst (capture_screenshot (Written t img_abs) m_abs)) =
      (page_store m_abs)(t \<mapsto> img_abs)"
    by (rule page_store_new [OF new])
qed

theorem absent_fingerprint_skips_comparison_witness:
  "phash_distance (Some ''0000000000000000000000000000000000000000000000000000000000000000'') None = 0 \<and>
   snd (capture_screenshot (Written 1700000002 (\<lparr>pixels = 1, phash = Some ''0000000000000000000000000000000000000000000000000000000000000000'', md5 = ''6f5902ac237024bdd0c176cb93063dc4'', renders = True\<rparr>))
     (\<lparr>screenshots_dir = [(''screenshot_1700000000.png'', \<lparr>pixels = 4, phash = None, md5 = ''d41d8cd98f00b204e9800998ecf8427e'', renders = False\<rparr>)], last_image_hash = Some ''d41d8cd98f00b204e9800998ecf8427e'', reached_duplicate = False, ebook_pdf = None\<rparr>)) = None \<and>
   snd (capture_screenshot (Written 1700000002 (\<lparr>pixels = 4, phash = None, md5 = ''d41d8cd98f00b204e9800998ecf8427e'', renders = False\<rparr>))
     (\<lparr>screenshots_dir = [(''screenshot_1700000000.png'', \<lparr>pixels = 1, phash = Some ''0000000000000000000000000000000000000000000000000000000000000000'', md5 = ''6f5902ac237024bdd0c176cb93063dc4'', renders = True\<rparr>)], last_image_hash = Some ''0000000000000000000000000000000000000000000000000000000000000000'', reached_duplicate = False, ebook_pdf = None\<rparr>)) = Some (final_path 1700000002)"
proof -
  let ?a = "Some ''0000000000000000000000000000000000000000000000000000000000000000''"
  let ?m_len = "\<lparr>screenshots_dir = [(''screenshot_1700000000.png'', \<lparr>pixels = 4, phash = None, md5 = ''d41d8cd98f00b204e9800998ecf8427e'', renders = False\<rparr>)], last_image_hash = Some ''d41d8cd98f00b204e9800998ecf8427e'', reached_duplicate = False, ebook_pdf = None\<rparr>"
  let ?img_len = "\<lparr>pixels = 1, phash = Some ''0000000000000000000000000000000000000000000000000000000000000000'', md5 = ''6f5902ac237024bdd0c176cb93063dc4'', renders = True\<rparr>"
  let ?m_abs = "\<lparr>screenshots_dir = [(''screenshot_1700000000.png'', \<lparr>pixels = 1, phash = Some ''0000000000000000000000000000000000000000000000000000000000000000'', md5 = ''6f5902ac237024bdd0c176cb93063dc4'', renders = True\<rparr>)], last_image_hash = Some ''0000000000000000000000000000000000000000000000000000000000000000'', reached_duplicate = False, ebook_pdf = None\<rparr>"
  let ?img_abs = "\<lparr>pixels = 4, phash = None, md5 = ''d41d8cd98f00b204e9800998ecf8427e'', renders = False\<rparr>"
  note th = absent_fingerprint_skips_comparison
    [where a = ?a and b = None and m_len = ?m_len and img_len = ?img_len
       and m_abs = ?m_abs and img_abs = ?img_abs and t = 1700000002]
  have h1: "\<not> truthy ?a \<or> \<not> truthy None \<or> length (the ?a) \<noteq> length (the None)"
    by simp
  have h2: "truthy (last_image_hash ?m_len) \<and> truthy (phash ?img_len) \<and>
      length (the (phash ?img_len)) \<noteq> length (the (last_image_hash ?m_len))"
    by simp
  have h3: "\<not> truthy (last_image_hash ?m_abs) \<or> \<not> truthy (phash ?img_abs)"
    by simp
  from th h1 have c1: "phash_distance ?a None = 0"
    by blast
  from th h2 have c2: "snd (capture_screenshot (Written 1700000002 ?img_len) ?m_len) = None"
    by blast
  from th h3 have c3: "snd (capture_screenshot (Written 1700000002 ?img_abs) ?m_abs) =
      Some (final_path 1700000002)"
    by blast
  from c1 c2 c3 show ?thesis
    by blast
qed

text \<open>
  Before any page is stored the baseline is absent: the distance to it is 0, and the frame
  is stored. A frame whose fingerprint cannot be computed is stored too.
\<close>

theorem absent_baseline_stored_counterexample:
  "phash_distance (Some ''0000000000000000000000000000000000000000000000000000000000000000'') None = 0 \<and>
   snd (capture_screenshot (Written 1700000000 (\<lparr>pixels = 1, phash = Some ''0000000000000000000000000000000000000000000000000000000000000000'', md5 = ''6f5902ac237024bdd0c176cb93063dc4'', renders = True\<rparr>))
     (new_app_manager [] None)) = Some ''screenshot_1700000000.png'' \<and>
   screenshots_dir (fst (capture_screenshot (Written 1700000000 (\<lparr>pixels = 1, phash = Some ''0000000000000000000000000000000000000000000000000000000000000000'', md5 = ''6f5902ac237024bdd0c176cb93063dc4'', renders = True\<rparr>))
     (new_app_manager [] None))) =
     [(''screenshot_1700000000.png'', \<lparr>pixels = 1, phash = Some ''0000000000000000000000000000000000000000000000000000000000000000'', md5 = ''6f5902ac237024bdd0c176cb93063dc4'', renders = True\<rparr>)] \<and>
   phash_distance None (Some ''0000000000000000000000000000000000000000000000000000000000000000'') = 0 \<and>
   snd (capture_screenshot (Written 1700000002 (\<lparr>pixels = 4, phash = None, md5 = ''d41d8cd98f00b204e9800998ecf8427e'', renders = False\<rparr>))
     (\<lparr>screenshots_dir = [(''screenshot_1700000000.png'', \<lparr>pixels = 1, phash = Some ''0000000000000000000000000000000000000000000000000000000000000000'', md5 = ''6f5902ac237024bdd0c176cb93063dc4'', renders = True\<rparr>)], last_image_hash = Some ''0000000000000000000000000000000000000000000000000000000000000000'', reached_duplicate = False, ebook_pdf = None\<rparr>)) = Some ''screenshot_1700000002.png''"
  by (simp add: start_loop_def new_app_manager_def clear_screenshots_folder_def is_duplicate_def phash_distance_def Let_def final_path_def tmp_path_def str_int_def digits.simps)


section \<open>The baseline\<close>







end
